theory Spec2Isabelle
  imports Complex_Main
begin

section \<open>Score ensemblers of \<^verbatim>\<open>pysad/transform/ensemble/ensemblers.py\<close>\<close>

text \<open>
  The module wraps five functions of \<^verbatim>\<open>pyod.models.combination\<close> (\<^verbatim>\<open>average\<close>,
  \<^verbatim>\<open>maximization\<close>, \<^verbatim>\<open>median\<close>, \<^verbatim>\<open>moa\<close>, \<^verbatim>\<open>aom\<close>) in classes that
  share the method \<^verbatim>\<open>transform_partial\<close>. The theory has three layers.
  \<^item> The class statements of the module, with Python's choice of the metaclass. Line 7
    reads \<^verbatim>\<open>class PYODScoreEnsembler(BaseScoreEnsembler, metaclass=ABC)\<close>: it names the
    class \<^verbatim>\<open>abc.ABC\<close> as the metaclass. \<^verbatim>\<open>BaseScoreEnsembler\<close> is defined in a file
    that is not among the sources, so its own metaclass is a parameter.
  \<^item> The constructors, \<^verbatim>\<open>_combine\<close> and \<^verbatim>\<open>transform_partial\<close>, from the source,
    with the five imported functions as a parameter.
  \<^item> The behaviour the specification ascribes to the five imported functions.

  Python floats are modelled as \<^typ>\<open>real\<close>: rounding, infinities and NaN are not
  modelled.
\<close>

subsection \<open>Errors\<close>

text \<open>
  \<open>TypeError\<close> is Python's built-in exception, raised by a class statement whose
  metaclass cannot be determined or called. \<open>ConfigurationError\<close> and
  \<open>InputShapeError\<close> are the two error kinds the specification names; the source
  defines and raises neither.
\<close>

datatype error = TypeError | ConfigurationError | InputShapeError

subsection \<open>Class statements and the metaclass\<close>

text \<open>
  A class, as far as a class statement looks at it: its name and the names of the
  classes it derives from.
\<close>

record pyclass =
  class_name :: string
  superclasses :: "string list"

definition issubclass :: "pyclass \<Rightarrow> pyclass \<Rightarrow> bool" where
  "issubclass c d = (class_name d = class_name c \<or> class_name d \<in> set (superclasses c))"

text \<open>The built-in classes and those of the module \<^verbatim>\<open>abc\<close> that line 1 imports.\<close>

definition py_object :: pyclass where
  "py_object = \<lparr>class_name = ''object'', superclasses = []\<rparr>"

definition py_type :: pyclass where
  "py_type = \<lparr>class_name = ''type'', superclasses = [''object'']\<rparr>"

definition py_ABCMeta :: pyclass where
  "py_ABCMeta = \<lparr>class_name = ''ABCMeta'', superclasses = [''type'', ''object'']\<rparr>"

definition py_ABC :: pyclass where
  "py_ABC = \<lparr>class_name = ''ABC'', superclasses = [''object'']\<rparr>"

text \<open>
  A metaclass that derives from \<^verbatim>\<open>abc.ABC\<close> as well as from \<^verbatim>\<open>type\<close>, as in
  \<^verbatim>\<open>class ABCDerivedMeta(type, ABC)\<close>. No class of the standard library is of this
  kind; it is the only kind of metaclass of \<^verbatim>\<open>BaseScoreEnsembler\<close> under which line 7
  runs through, and it serves to evaluate what the module would do then.
\<close>

definition py_ABCDerivedMeta :: pyclass where
  "py_ABCDerivedMeta =
     \<lparr>class_name = ''ABCDerivedMeta'', superclasses = [''type'', ''ABC'', ''object'']\<rparr>"

text \<open>
  The metaclass of a class statement: the most derived one among the metaclass given
  in the statement and the types of the bases. The candidate stays if it derives from
  the type of the next base, gives way if that type derives from it, and otherwise the
  statement raises \<^verbatim>\<open>TypeError: metaclass conflict\<close>.
\<close>

fun calculate_metaclass :: "pyclass \<Rightarrow> pyclass list \<Rightarrow> error + pyclass" where
  "calculate_metaclass winner [] = Inr winner"
| "calculate_metaclass winner (t # ts) =
     (if issubclass winner t then calculate_metaclass winner ts
      else if issubclass t winner then calculate_metaclass t ts
      else Inl TypeError)"

text \<open>
  \<^verbatim>\<open>class C(bases, metaclass=meta)\<close>: the metaclass found is called with the name, the
  bases and the body of the class. A metaclass that does not derive from \<^verbatim>\<open>type\<close>, as
  \<^verbatim>\<open>abc.ABC\<close> itself, has the constructor of \<^verbatim>\<open>object\<close>, and the call raises
  \<^verbatim>\<open>TypeError: ABC() takes no arguments\<close>. The result is the type of the new class.
\<close>

definition build_class :: "pyclass \<Rightarrow> pyclass list \<Rightarrow> error + pyclass" where
  "build_class meta base_types =
     (case calculate_metaclass meta base_types of
        Inl e \<Rightarrow> Inl e
      | Inr winner \<Rightarrow> if issubclass winner py_type then Inr winner else Inl TypeError)"

text \<open>
  Line 7, \<^verbatim>\<open>class PYODScoreEnsembler(BaseScoreEnsembler, metaclass=ABC)\<close>, where
  \<open>base_meta\<close> is the type of \<^verbatim>\<open>BaseScoreEnsembler\<close>.
\<close>

definition PYODScoreEnsembler_class :: "pyclass \<Rightarrow> error + pyclass" where
  "PYODScoreEnsembler_class base_meta = build_class py_ABC [base_meta]"

text \<open>
  The module body. The five concrete classes (lines 41, 67, 85, 103 and 140) are each
  \<^verbatim>\<open>class C(PYODScoreEnsembler)\<close>, with no metaclass of their own (the default,
  \<^verbatim>\<open>type\<close>). An exception at line 7 ends the module, and none of the five classes
  exists. The result is the type the five classes share.
\<close>

definition ensemblers_module :: "pyclass \<Rightarrow> error + pyclass" where
  "ensemblers_module base_meta =
     (case PYODScoreEnsembler_class base_meta of
        Inl e \<Rightarrow> Inl e
      | Inr t \<Rightarrow> build_class py_type [t])"

text \<open>
  A computation that uses a class of the module: it ends in the module's exception
  where the module has raised one.
\<close>

definition in_module :: "pyclass \<Rightarrow> error + 'a \<Rightarrow> error + 'a" where
  "in_module base_meta r = (case ensemblers_module base_meta of Inl e \<Rightarrow> Inl e | Inr t \<Rightarrow> r)"

subsection \<open>Instances\<close>

text \<open>
  The attributes set by \<^verbatim>\<open>AverageOfMaximumEnsembler.__init__\<close> and
  \<^verbatim>\<open>MaximumOfAverageEnsembler.__init__\<close>, in the order of assignment
  (\<open>method_name\<close> is the attribute \<^verbatim>\<open>method\<close>).
\<close>

record bucket_params =
  method_name :: string
  n_buckets :: int
  bootstrap_estimators :: bool

text \<open>
  The shape of an instance of each concrete class: the class and its attributes
  (\<^verbatim>\<open>estimator_weights\<close> for the average, where \<open>None\<close> is Python's \<^verbatim>\<open>None\<close>). A
  value of this type stands for an object only where the module has defined the
  classes; the constructors and \<^verbatim>\<open>transform_partial\<close> below return the module's
  exception where it has not.
\<close>

datatype ensembler =
    AverageScoreEnsembler "real list option"
  | MaxScoreEnsembler
  | MedianScoreEnsembler
  | AverageOfMaximumEnsembler bucket_params
  | MaximumOfAverageEnsembler bucket_params

subsection \<open>Constructors\<close>

text \<open>
  A keyword argument with a default is an \<open>option\<close>: \<open>None\<close> when the caller leaves
  the argument out.
\<close>

definition default_arg :: "'a \<Rightarrow> 'a option \<Rightarrow> 'a" where
  "default_arg d a = (case a of None \<Rightarrow> d | Some v \<Rightarrow> v)"

text \<open>
  The body of \<^verbatim>\<open>__init__(self, n_buckets=5, method='static', bootstrap_estimators=False)\<close>,
  the same in both bucket classes: three assignments, no check and no \<^verbatim>\<open>raise\<close>.
\<close>

definition AverageOfMaximumEnsembler_init ::
  "int option \<Rightarrow> string option \<Rightarrow> bool option \<Rightarrow> bucket_params" where
  "AverageOfMaximumEnsembler_init nb m b =
     \<lparr>method_name = default_arg ''static'' m,
      n_buckets = default_arg 5 nb,
      bootstrap_estimators = default_arg False b\<rparr>"

definition MaximumOfAverageEnsembler_init ::
  "int option \<Rightarrow> string option \<Rightarrow> bool option \<Rightarrow> bucket_params" where
  "MaximumOfAverageEnsembler_init nb m b =
     \<lparr>method_name = default_arg ''static'' m,
      n_buckets = default_arg 5 nb,
      bootstrap_estimators = default_arg False b\<rparr>"

text \<open>
  The body of \<^verbatim>\<open>AverageScoreEnsembler.__init__(self, estimator_weights=None)\<close>: it
  stores the argument. The call \<^verbatim>\<open>super().__init__()\<close> before it goes to
  \<^verbatim>\<open>BaseScoreEnsembler\<close>; no attribute it might set is read in this module.
\<close>

definition AverageScoreEnsembler_init :: "real list option option \<Rightarrow> real list option" where
  "AverageScoreEnsembler_init estimator_weights = default_arg None estimator_weights"

text \<open>
  The constructor calls \<^verbatim>\<open>AverageScoreEnsembler(...)\<close>, \<^verbatim>\<open>MaxScoreEnsembler()\<close>,
  \<^verbatim>\<open>MedianScoreEnsembler()\<close>, \<^verbatim>\<open>AverageOfMaximumEnsembler(...)\<close> and
  \<^verbatim>\<open>MaximumOfAverageEnsembler(...)\<close>: the class must exist for the call to reach
  \<^verbatim>\<open>__init__\<close>. Each concrete class defines \<^verbatim>\<open>_combine\<close>, the one abstract method
  declared in this module; abstract methods that \<^verbatim>\<open>BaseScoreEnsembler\<close> may declare
  are not modelled.
\<close>

definition new_AverageScoreEnsembler ::
  "pyclass \<Rightarrow> real list option option \<Rightarrow> error + ensembler" where
  "new_AverageScoreEnsembler base_meta estimator_weights =
     in_module base_meta
       (Inr (AverageScoreEnsembler (AverageScoreEnsembler_init estimator_weights)))"

definition new_MaxScoreEnsembler :: "pyclass \<Rightarrow> error + ensembler" where
  "new_MaxScoreEnsembler base_meta = in_module base_meta (Inr MaxScoreEnsembler)"

definition new_MedianScoreEnsembler :: "pyclass \<Rightarrow> error + ensembler" where
  "new_MedianScoreEnsembler base_meta = in_module base_meta (Inr MedianScoreEnsembler)"

definition new_AverageOfMaximumEnsembler ::
  "pyclass \<Rightarrow> int option \<Rightarrow> string option \<Rightarrow> bool option \<Rightarrow> error + ensembler" where
  "new_AverageOfMaximumEnsembler base_meta nb m b =
     in_module base_meta
       (Inr (AverageOfMaximumEnsembler (AverageOfMaximumEnsembler_init nb m b)))"

definition new_MaximumOfAverageEnsembler ::
  "pyclass \<Rightarrow> int option \<Rightarrow> string option \<Rightarrow> bool option \<Rightarrow> error + ensembler" where
  "new_MaximumOfAverageEnsembler base_meta nb m b =
     in_module base_meta
       (Inr (MaximumOfAverageEnsembler (MaximumOfAverageEnsembler_init nb m b)))"

subsection \<open>The imported combination functions, as a parameter\<close>

text \<open>
  \<^verbatim>\<open>_combine\<close> receives an array of shape \<open>(1, num_scores)\<close>: a matrix of one row.
\<close>

datatype row_matrix = RowMatrix (row: "real list")

text \<open>
  The five functions imported from \<^verbatim>\<open>pyod.models.combination\<close>, with the arguments
  the source passes. \<^verbatim>\<open>aom\<close> and \<^verbatim>\<open>moa\<close> may draw from a random source, of
  type \<open>'g\<close>, which they take and return.
\<close>

record 'g combination =
  average :: "row_matrix \<Rightarrow> real list option \<Rightarrow> error + real"
  maximization :: "row_matrix \<Rightarrow> error + real"
  median :: "row_matrix \<Rightarrow> error + real"
  moa :: "'g \<Rightarrow> row_matrix \<Rightarrow> int \<Rightarrow> string \<Rightarrow> bool \<Rightarrow> (error + real) \<times> 'g"
  aom :: "'g \<Rightarrow> row_matrix \<Rightarrow> int \<Rightarrow> string \<Rightarrow> bool \<Rightarrow> (error + real) \<times> 'g"

subsection \<open>\<^verbatim>\<open>_combine\<close> and \<^verbatim>\<open>transform_partial\<close>\<close>

text \<open>\<^verbatim>\<open>scores.reshape(1, -1)\<close>: the vector becomes the only row of a matrix.\<close>

definition reshape :: "real list \<Rightarrow> row_matrix" where
  "reshape scores = RowMatrix scores"

text \<open>
  The bodies of \<^verbatim>\<open>_combine\<close>, one equation per class: each hands the matrix and the
  instance's attributes to its imported function and returns what that returns.
\<close>

fun combine :: "'g combination \<Rightarrow> ensembler \<Rightarrow> 'g \<Rightarrow> row_matrix \<Rightarrow> (error + real) \<times> 'g" where
  "combine lib (AverageScoreEnsembler estimator_weights) g scores =
     (average lib scores estimator_weights, g)"
| "combine lib MaxScoreEnsembler g scores = (maximization lib scores, g)"
| "combine lib MedianScoreEnsembler g scores = (median lib scores, g)"
| "combine lib (AverageOfMaximumEnsembler p) g scores =
     aom lib g scores (n_buckets p) (method_name p) (bootstrap_estimators p)"
| "combine lib (MaximumOfAverageEnsembler p) g scores =
     moa lib g scores (n_buckets p) (method_name p) (bootstrap_estimators p)"

text \<open>
  \<^verbatim>\<open>transform_partial\<close> is a method of \<^verbatim>\<open>PYODScoreEnsembler\<close>: where the module has
  raised, there is no class, no instance and no method, and the attempt to use one ends
  in the module's exception. Otherwise the method reshapes and calls \<^verbatim>\<open>_combine\<close>. It
  assigns no attribute, so the instance it returns with the result is the one it was
  called on.
\<close>

definition transform_partial ::
  "pyclass \<Rightarrow> 'g combination \<Rightarrow> ensembler \<Rightarrow> 'g \<Rightarrow> real list
     \<Rightarrow> (error + real) \<times> ensembler \<times> 'g" where
  "transform_partial base_meta lib self g scores =
     (case ensemblers_module base_meta of
        Inl e \<Rightarrow> (Inl e, self, g)
      | Inr t \<Rightarrow>
          (let scores' = reshape scores;
               (r, g') = combine lib self g scores'
           in (r, self, g')))"

section \<open>The combination functions as the specification describes them\<close>

text \<open>
  The bodies of \<^verbatim>\<open>average\<close>, \<^verbatim>\<open>maximization\<close>, \<^verbatim>\<open>median\<close>, \<^verbatim>\<open>aom\<close> and
  \<^verbatim>\<open>moa\<close> are in the pyod library. What follows is the behaviour section 4.1 of the
  specification gives them, on the one-row matrix the classes pass.
\<close>

subsection \<open>Reductions of a list of scores\<close>

text \<open>
  Modelled from the spec: the maximum element of a group of scores ("Max: returns the
  maximum element", "takes the maximum score within each bucket"), as a left fold from
  the first element. The specification speaks of no maximum of no scores, and
  \<open>maximum []\<close> is left unspecified; every caller below checks for the empty vector.
\<close>

fun maximum :: "real list \<Rightarrow> real" where
  "maximum (x # xs) = fold max xs x"

text \<open>
  Modelled from the spec: the mean of a group of scores ("returns the mean of per-bucket
  maxima", "takes the mean per bucket").
\<close>

definition arith_mean :: "real list \<Rightarrow> real" where
  "arith_mean xs = sum_list xs / real (length xs)"

text \<open>
  Modelled from the spec: "Average: weighted mean". With weights that sum to zero the
  quotient has no meaning (HOL's division gives 0 there); the theorem on weights
  excludes them.
\<close>

definition weighted_mean :: "real list \<Rightarrow> real list \<Rightarrow> real" where
  "weighted_mean xs ws = sum_list (map2 (*) xs ws) / sum_list ws"

text \<open>
  Modelled from the spec: "standard median-of-sorted-sequence semantics, including the
  even-count averaging rule", on a sequence that is already sorted.
\<close>

definition median_sorted :: "real list \<Rightarrow> real" where
  "median_sorted s =
     (let n = length s
      in if odd n then s ! (n div 2) else (s ! (n div 2 - 1) + s ! (n div 2)) / 2)"

subsection \<open>Buckets\<close>

text \<open>
  Modelled from the spec: "static: contiguous fixed-size partition in input order".
  \<open>static_buckets sz k xs\<close> cuts \<open>xs\<close> into \<open>k\<close> consecutive buckets of \<open>sz\<close> scores.
  The specification does not say where the scores go that are left over when the
  number of buckets does not divide the number of scores; here the last bucket takes
  them, so that the buckets always partition the vector. No theorem below depends on
  that choice.
\<close>

fun static_buckets :: "nat \<Rightarrow> nat \<Rightarrow> 'a list \<Rightarrow> 'a list list" where
  "static_buckets sz 0 xs = []"
| "static_buckets sz (Suc 0) xs = [xs]"
| "static_buckets sz (Suc (Suc k)) xs = take sz xs # static_buckets sz (Suc k) (drop sz xs)"

text \<open>
  Modelled from the spec: "dynamic: randomized variable-size partition" and "bootstrap
  resampling of which detectors are drawn per bucket (with replacement)". The
  specification does not say how the random source is turned into buckets, so the
  builder of random buckets is a parameter: from the random source, the bucketing
  method, the bootstrap flag, the number of buckets and the scores it gives the buckets
  and the random source after the draw.
\<close>

type_synonym 'g random_buckets =
  "'g \<Rightarrow> string \<Rightarrow> bool \<Rightarrow> nat \<Rightarrow> real list \<Rightarrow> real list list \<times> 'g"

text \<open>
  Modelled from the spec: the checks and the bucketing that \<^verbatim>\<open>aom\<close> and \<^verbatim>\<open>moa\<close>
  share. "Input constraint: scores must be non-empty" (InputShapeError for "score vector
  length zero"); "fails with ConfigurationError for invalid n_buckets (\<le> 0 or > detector
  count when bootstrap disabled), invalid method (must be static or dynamic)". The
  specification gives no order for the checks; the input constraint is taken first.
  Only the static mode without bootstrap leaves the random source alone.
\<close>

definition spec_buckets ::
  "'g random_buckets \<Rightarrow> 'g \<Rightarrow> row_matrix \<Rightarrow> int \<Rightarrow> string \<Rightarrow> bool
     \<Rightarrow> (error + real list list) \<times> 'g" where
  "spec_buckets rb g scores nb meth boot =
     (let xs = row scores in
      if xs = [] then (Inl InputShapeError, g)
      else if nb \<le> 0 \<or> (\<not> boot \<and> int (length xs) < nb) then (Inl ConfigurationError, g)
      else if meth \<noteq> ''static'' \<and> meth \<noteq> ''dynamic'' then (Inl ConfigurationError, g)
      else if meth = ''static'' \<and> \<not> boot
        then (Inr (static_buckets (length xs div nat nb) (nat nb) xs), g)
      else (let (bs, g') = rb g meth boot (nat nb) xs in (Inr bs, g')))"

subsection \<open>The five functions\<close>

text \<open>
  Modelled from the spec: \<^verbatim>\<open>maximization\<close>. "Max: returns the maximum element."
\<close>

definition spec_maximization :: "row_matrix \<Rightarrow> error + real" where
  "spec_maximization scores =
     (if row scores = [] then Inl InputShapeError else Inr (maximum (row scores)))"

text \<open>
  Modelled from the spec: \<^verbatim>\<open>median\<close>. "Median: returns the median element
  (standard median-of-sorted-sequence semantics, including the even-count averaging
  rule)."
\<close>

definition spec_median :: "row_matrix \<Rightarrow> error + real" where
  "spec_median scores =
     (if row scores = [] then Inl InputShapeError
      else Inr (median_sorted (sort (row scores))))"

text \<open>
  Modelled from the spec: \<^verbatim>\<open>average\<close>. "Average: weighted mean; accepts an optional
  weight vector matching detector count (uniform weights if absent); fails with
  ConfigurationError if weight vector length mismatches detector count." Section 7 of
  the specification names InputShapeError for the same mismatch; this follows section
  4.1, and takes the input constraint first.
\<close>

definition spec_average :: "row_matrix \<Rightarrow> real list option \<Rightarrow> error + real" where
  "spec_average scores estimator_weights =
     (if row scores = [] then Inl InputShapeError
      else case estimator_weights of
        None \<Rightarrow> Inr (weighted_mean (row scores) (replicate (length (row scores)) 1))
      | Some ws \<Rightarrow>
          if length ws \<noteq> length (row scores) then Inl ConfigurationError
          else Inr (weighted_mean (row scores) ws))"

text \<open>
  Modelled from the spec: \<^verbatim>\<open>aom\<close>. "AverageOfMaximum: partitions the detector set
  into n_buckets groups, takes the maximum score within each bucket, returns the mean of
  per-bucket maxima."
\<close>

definition spec_aom ::
  "'g random_buckets \<Rightarrow> 'g \<Rightarrow> row_matrix \<Rightarrow> int \<Rightarrow> string \<Rightarrow> bool \<Rightarrow> (error + real) \<times> 'g" where
  "spec_aom rb g scores nb meth boot =
     (case spec_buckets rb g scores nb meth boot of
        (Inl e, g') \<Rightarrow> (Inl e, g')
      | (Inr bs, g') \<Rightarrow> (Inr (arith_mean (map maximum bs)), g'))"

text \<open>
  Modelled from the spec: \<^verbatim>\<open>moa\<close>. "MaximumOfAverage: same bucketing policy, but
  takes the mean per bucket and returns the maximum of per-bucket means."
\<close>

definition spec_moa ::
  "'g random_buckets \<Rightarrow> 'g \<Rightarrow> row_matrix \<Rightarrow> int \<Rightarrow> string \<Rightarrow> bool \<Rightarrow> (error + real) \<times> 'g" where
  "spec_moa rb g scores nb meth boot =
     (case spec_buckets rb g scores nb meth boot of
        (Inl e, g') \<Rightarrow> (Inl e, g')
      | (Inr bs, g') \<Rightarrow> (Inr (maximum (map arith_mean bs)), g'))"

text \<open>
  Modelled from the spec: the five functions together, as the parameter of
  \<^verbatim>\<open>transform_partial\<close>.
\<close>

definition pyod_spec :: "'g random_buckets \<Rightarrow> 'g combination" where
  "pyod_spec rb =
     \<lparr>average = spec_average, maximization = spec_maximization, median = spec_median,
      moa = spec_moa rb, aom = spec_aom rb\<rparr>"

subsection \<open>Reproducible configurations and two random bucket builders\<close>

text \<open>
  The configurations whose result the specification calls reproducible: the average,
  the maximum and the median always, the two bucket ensemblers when the bucketing is
  static and bootstrap is off.
\<close>

fun reproducible :: "ensembler \<Rightarrow> bool" where
  "reproducible (AverageScoreEnsembler w) = True"
| "reproducible MaxScoreEnsembler = True"
| "reproducible MedianScoreEnsembler = True"
| "reproducible (AverageOfMaximumEnsembler p) =
     (method_name p = ''static'' \<and> \<not> bootstrap_estimators p)"
| "reproducible (MaximumOfAverageEnsembler p) =
     (method_name p = ''static'' \<and> \<not> bootstrap_estimators p)"

text \<open>
  Two builders of random buckets over a counter as the random source, for evaluating
  the theorems at concrete inputs: the first puts every score in every bucket, the
  second one score in each bucket. Both advance the counter.
\<close>

definition whole_buckets :: "nat random_buckets" where
  "whole_buckets g meth boot nb xs = (replicate nb xs, Suc g)"

definition single_buckets :: "nat random_buckets" where
  "single_buckets g meth boot nb xs = (map (\<lambda>x. [x]) (take nb xs), Suc g)"

section \<open>Properties of the reductions and of the static buckets\<close>

lemma maximum_Max: "xs \<noteq> [] \<Longrightarrow> maximum xs = Max (set xs)"
proof (cases xs)
  case Nil
  assume "xs \<noteq> []"
  with Nil show ?thesis by simp
next
  case (Cons y ys)
  then show ?thesis using Max.set_eq_fold [of y ys] by simp
qed

lemma arith_mean_single: "arith_mean [x] = x"
  by (simp add: arith_mean_def)

lemma sum_list_map2_ones: "sum_list (map2 (*) xs (replicate (length xs) (1::real))) = sum_list xs"
  by (induction xs) simp_all

lemma sum_list_ones: "sum_list (replicate n (1::real)) = real n"
  by (induction n) simp_all

lemma weighted_mean_uniform: "weighted_mean xs (replicate (length xs) 1) = arith_mean xs"
  by (simp add: weighted_mean_def arith_mean_def sum_list_map2_ones sum_list_ones)

lemma sum_list_map2_nth:
  "length ws = length xs \<Longrightarrow>
   sum_list (map2 (*) xs ws) = (\<Sum>i<length xs. (ws ! i) * (xs ! i :: real))"
proof (induction xs arbitrary: ws)
  case Nil
  then show ?case by simp
next
  case (Cons x xs)
  then obtain w ws' where ws: "ws = w # ws'" and len: "length ws' = length xs"
    by (cases ws) auto
  have "(\<Sum>i<Suc (length xs). (w # ws') ! i * (x # xs) ! i) =
        w * x + (\<Sum>i<length xs. ws' ! i * xs ! i)"
    by (simp add: sum.lessThan_Suc_shift del: sum.lessThan_Suc)
  with Cons.IH [OF len] ws show ?case by simp
qed

lemma sum_list_nth_lessThan: "sum_list ws = (\<Sum>i<length ws. (ws ! i :: real))"
  by (simp add: sum_list_sum_nth atLeast0LessThan)

text \<open>
  The static buckets are a partition of the vector into the given number of non-empty
  consecutive buckets, whenever the number of buckets passes the checks.
\<close>

lemma static_buckets_length: "length (static_buckets sz k xs) = k"
  by (induction sz k xs rule: static_buckets.induct) simp_all

lemma static_buckets_concat: "0 < k \<Longrightarrow> concat (static_buckets sz k xs) = xs"
  by (induction sz k xs rule: static_buckets.induct) simp_all

lemma static_buckets_nonempty:
  "0 < sz \<Longrightarrow> 0 < k \<Longrightarrow> k * sz \<le> length xs \<Longrightarrow> [] \<notin> set (static_buckets sz k xs)"
proof (induction sz k xs rule: static_buckets.induct)
  case (1 sz xs)
  then show ?case by simp
next
  case (2 sz xs)
  then show ?case by auto
next
  case (3 sz k xs)
  from "3.prems" have "sz \<le> length xs" and rest: "Suc k * sz \<le> length (drop sz xs)"
    by simp_all
  with "3.prems" have "take sz xs \<noteq> []"
    by auto
  moreover have "[] \<notin> set (static_buckets sz (Suc k) (drop sz xs))"
    using "3.IH" "3.prems"(1) rest by simp
  ultimately show ?case
    by simp
qed

lemma static_buckets_partition:
  assumes "xs \<noteq> []" and "0 < nb" and "nb \<le> int (length xs)"
  shows "concat (static_buckets (length xs div nat nb) (nat nb) xs) = xs
       \<and> length (static_buckets (length xs div nat nb) (nat nb) xs) = nat nb
       \<and> [] \<notin> set (static_buckets (length xs div nat nb) (nat nb) xs)"
proof -
  from assms have k: "0 < nat nb" "nat nb \<le> length xs"
    by simp_all
  then have sz: "0 < length xs div nat nb"
    by (simp add: div_greater_zero_iff)
  have "nat nb * (length xs div nat nb) \<le> length xs"
    by simp
  with k sz show ?thesis
    by (simp add: static_buckets_length static_buckets_concat static_buckets_nonempty)
qed




lemma spec_buckets_static:
  "xs \<noteq> [] \<Longrightarrow> 0 < nb \<Longrightarrow> nb \<le> int (length xs) \<Longrightarrow>
   spec_buckets rb g (RowMatrix xs) nb ''static'' False =
     (Inr (static_buckets (length xs div nat nb) (nat nb) xs), g)"
  by (simp add: spec_buckets_def)

lemma spec_buckets_reproducible:
  "spec_buckets rb g m nb ''static'' False = (fst (spec_buckets rb' g' m nb ''static'' False), g)"
  by (simp add: spec_buckets_def Let_def)

subsection \<open>The median of the model is a median\<close>

text \<open>
  At least half of the scores are at most \<open>median_sorted (sort xs)\<close>, and at least half
  are at least that value.
\<close>

lemma length_filter_mono:
  "(\<And>x. x \<in> set xs \<Longrightarrow> P x \<Longrightarrow> Q x) \<Longrightarrow> length (filter P xs) \<le> length (filter Q xs)"
  by (induction xs) auto

lemma sorted_count_le:
  assumes "sorted s" and "i < length s"
  shows "Suc i \<le> length (filter (\<lambda>x. x \<le> s ! i) (s :: real list))"
proof -
  have "\<forall>x \<in> set (take (Suc i) s). x \<le> s ! i"
  proof
    fix x assume "x \<in> set (take (Suc i) s)"
    then obtain j where "j < Suc i" "j < length s" "x = s ! j"
      by (auto simp: in_set_conv_nth)
    with assms show "x \<le> s ! i"
      by (simp add: sorted_nth_mono)
  qed
  then have "filter (\<lambda>x. x \<le> s ! i) (take (Suc i) s) = take (Suc i) s"
    by simp
  moreover have "filter (\<lambda>x. x \<le> s ! i) s =
      filter (\<lambda>x. x \<le> s ! i) (take (Suc i) s) @ filter (\<lambda>x. x \<le> s ! i) (drop (Suc i) s)"
    by (metis append_take_drop_id filter_append)
  ultimately show ?thesis
    using assms(2) by simp
qed

lemma sorted_count_ge:
  assumes "sorted s" and "i < length s"
  shows "length s - i \<le> length (filter (\<lambda>x. s ! i \<le> x) (s :: real list))"
proof -
  have "\<forall>x \<in> set (drop i s). s ! i \<le> x"
  proof
    fix x assume "x \<in> set (drop i s)"
    then obtain j where "j < length s - i" "x = s ! (i + j)"
      by (auto simp: in_set_conv_nth)
    with assms show "s ! i \<le> x"
      by (simp add: sorted_nth_mono)
  qed
  then have "filter (\<lambda>x. s ! i \<le> x) (drop i s) = drop i s"
    by simp
  moreover have "filter (\<lambda>x. s ! i \<le> x) s =
      filter (\<lambda>x. s ! i \<le> x) (take i s) @ filter (\<lambda>x. s ! i \<le> x) (drop i s)"
    by (metis append_take_drop_id filter_append)
  ultimately show ?thesis
    by simp
qed

lemma length_filter_sort: "length (filter P (sort xs)) = length (filter P (xs :: real list))"
  by (simp add: filter_sort)

lemma twice_le_trans: "(n::nat) \<le> 2 * k \<Longrightarrow> k \<le> a \<Longrightarrow> a \<le> b \<Longrightarrow> n \<le> 2 * b"
  by arith

lemma median_sorted_splits:
  assumes "xs \<noteq> []"
  shows "length xs \<le> 2 * length (filter (\<lambda>x. x \<le> median_sorted (sort xs)) xs)
       \<and> length xs \<le> 2 * length (filter (\<lambda>x. median_sorted (sort xs) \<le> x) xs)"
proof -
  define s where "s = sort xs"
  define n where "n = length xs"
  have srt: "sorted s" and len: "length s = n" and pos: "0 < n"
    using assms by (simp_all add: s_def n_def)
  have cnt: "length (filter P xs) = length (filter P s)" for P
    by (simp add: s_def length_filter_sort)
  have "n \<le> 2 * length (filter (\<lambda>x. x \<le> median_sorted s) s)
      \<and> n \<le> 2 * length (filter (\<lambda>x. median_sorted s \<le> x) s)"
  proof (cases "odd n")
    case True
    then have m: "median_sorted s = s ! (n div 2)"
      by (simp add: median_sorted_def len)
    have i: "n div 2 < length s"
      using pos len by simp
    from True have below: "n \<le> 2 * Suc (n div 2)" and above: "n \<le> 2 * (length s - n div 2)"
      unfolding len by presburger+
    show ?thesis
      unfolding m
      using twice_le_trans [OF below sorted_count_le [OF srt i] order_refl]
        twice_le_trans [OF above sorted_count_ge [OF srt i] order_refl]
      by simp
  next
    case False
    then have m: "median_sorted s = (s ! (n div 2 - 1) + s ! (n div 2)) / 2"
      by (simp add: median_sorted_def len)
    from False pos have two: "2 \<le> n"
      by presburger
    have i: "n div 2 - 1 < length s" and j: "n div 2 < length s"
      using two len by simp_all
    have "s ! (n div 2 - 1) \<le> s ! (n div 2)"
      using srt j by (simp add: sorted_nth_mono)
    then have lo: "s ! (n div 2 - 1) \<le> median_sorted s" and hi: "median_sorted s \<le> s ! (n div 2)"
      by (simp_all add: m)
    have le: "length (filter (\<lambda>x. x \<le> s ! (n div 2 - 1)) s)
        \<le> length (filter (\<lambda>x. x \<le> median_sorted s) s)"
      using lo by (intro length_filter_mono) simp
    have ge: "length (filter (\<lambda>x. s ! (n div 2) \<le> x) s)
        \<le> length (filter (\<lambda>x. median_sorted s \<le> x) s)"
      using hi by (intro length_filter_mono) simp
    from False two have below: "n \<le> 2 * Suc (n div 2 - 1)"
      and above: "n \<le> 2 * (length s - n div 2)"
      unfolding len by presburger+
    show ?thesis
      using twice_le_trans [OF below sorted_count_le [OF srt i] le]
        twice_le_trans [OF above sorted_count_ge [OF srt j] ge]
      by simp
  qed
  then show ?thesis
    unfolding s_def [symmetric] n_def [symmetric] cnt .
qed

section \<open>Properties of the class statements\<close>

text \<open>
  Line 7 raises \<open>TypeError\<close> unless the type of \<^verbatim>\<open>BaseScoreEnsembler\<close> derives from
  \<^verbatim>\<open>abc.ABC\<close>. The types of ordinary classes, \<^verbatim>\<open>type\<close> and \<^verbatim>\<open>ABCMeta\<close> (the type
  of every class that derives from \<^verbatim>\<open>ABC\<close>), do not.
\<close>

lemma PYODScoreEnsembler_class_conflict:
  "\<not> issubclass base_meta py_ABC \<Longrightarrow> PYODScoreEnsembler_class base_meta = Inl TypeError"
  by (simp add: PYODScoreEnsembler_class_def build_class_def issubclass_def py_ABC_def
      py_type_def)

lemma ensemblers_module_conflict:
  "\<not> issubclass base_meta py_ABC \<Longrightarrow> ensemblers_module base_meta = Inl TypeError"
  by (simp add: ensemblers_module_def PYODScoreEnsembler_class_conflict)

lemma build_class_error: "build_class meta ts = Inl e \<Longrightarrow> e = TypeError"
proof (induction meta ts rule: calculate_metaclass.induct)
  case (1 winner)
  then show ?case
    by (simp add: build_class_def split: if_splits)
next
  case (2 winner t ts)
  then show ?case
    by (simp add: build_class_def split: if_splits)
qed

lemma ensemblers_module_error: "ensemblers_module base_meta = Inl e \<Longrightarrow> e = TypeError"
  by (auto simp: ensemblers_module_def PYODScoreEnsembler_class_def
      split: sum.splits dest: build_class_error)

lemma ensemblers_module_ABCMeta: "ensemblers_module py_ABCMeta = Inl TypeError"
  by (rule ensemblers_module_conflict) (simp add: issubclass_def py_ABCMeta_def py_ABC_def)

lemma ensemblers_module_type: "ensemblers_module py_type = Inl TypeError"
  by (rule ensemblers_module_conflict) (simp add: issubclass_def py_type_def py_ABC_def)

lemma ensemblers_module_ABCDerivedMeta:
  "ensemblers_module py_ABCDerivedMeta = Inr py_ABCDerivedMeta"
  by (simp add: ensemblers_module_def PYODScoreEnsembler_class_def build_class_def
      issubclass_def py_ABC_def py_type_def py_ABCDerivedMeta_def)

lemma in_module_ABCMeta: "in_module py_ABCMeta r = Inl TypeError"
  by (simp add: in_module_def ensemblers_module_ABCMeta)

lemma in_module_type: "in_module py_type r = Inl TypeError"
  by (simp add: in_module_def ensemblers_module_type)

lemma in_module_ABCDerivedMeta: "in_module py_ABCDerivedMeta r = r"
  by (simp add: in_module_def ensemblers_module_ABCDerivedMeta)

lemma in_module_Inr_cases: "in_module base_meta (Inr v) = Inl TypeError \<or> in_module base_meta (Inr v) = Inr v"
  by (auto simp: in_module_def split: sum.splits dest: ensemblers_module_error)


lemma transform_partial_in_module:
  "fst (transform_partial base_meta lib self g scores) =
     in_module base_meta (fst (combine lib self g (RowMatrix scores)))"
  by (simp add: transform_partial_def in_module_def reshape_def split: sum.splits prod.splits)

lemma transform_partial_self:
  "fst (snd (transform_partial base_meta lib self g scores)) = self"
  by (simp add: transform_partial_def split: sum.splits prod.splits)

section \<open>What the methods compute where the classes exist\<close>

text \<open>
  The lemmas of this section describe \<^verbatim>\<open>transform_partial\<close> for any type of
  \<^verbatim>\<open>BaseScoreEnsembler\<close>, over the combination functions as the specification
  describes them: the result is the module's exception where the module raises, and
  the stated score where it does not.
\<close>

lemma max_in_module:
  "xs \<noteq> [] \<Longrightarrow>
   fst (transform_partial base_meta (pyod_spec rb) MaxScoreEnsembler g xs) =
     in_module base_meta (Inr (Max (set xs)))"
  by (simp add: transform_partial_in_module pyod_spec_def spec_maximization_def maximum_Max)

lemma median_in_module:
  assumes "xs \<noteq> []"
  shows "(let m = (if odd (length xs) then sort xs ! (length xs div 2)
                  else (sort xs ! (length xs div 2 - 1) + sort xs ! (length xs div 2)) / 2)
          in fst (transform_partial base_meta (pyod_spec rb) MedianScoreEnsembler g xs) =
               in_module base_meta (Inr m)
           \<and> length xs \<le> 2 * length (filter (\<lambda>x. x \<le> m) xs)
           \<and> length xs \<le> 2 * length (filter (\<lambda>x. m \<le> x) xs))"
proof -
  have m: "median_sorted (sort xs) =
      (if odd (length xs) then sort xs ! (length xs div 2)
       else (sort xs ! (length xs div 2 - 1) + sort xs ! (length xs div 2)) / 2)"
    by (simp add: median_sorted_def Let_def)
  have r: "fst (transform_partial base_meta (pyod_spec rb) MedianScoreEnsembler g xs) =
      in_module base_meta (Inr (median_sorted (sort xs)))"
    using assms by (simp add: transform_partial_in_module pyod_spec_def spec_median_def)
  from median_sorted_splits [OF assms] r show ?thesis
    unfolding m Let_def by simp
qed

lemma average_in_module:
  assumes "xs \<noteq> []"
  shows "fst (transform_partial base_meta (pyod_spec rb) (AverageScoreEnsembler None) g xs) =
           in_module base_meta (Inr (sum_list xs / real (length xs)))
       \<and> (length ws = length xs \<longrightarrow>
           fst (transform_partial base_meta (pyod_spec rb)
                 (AverageScoreEnsembler (Some ws)) g xs) =
           in_module base_meta
             (Inr ((\<Sum>i<length xs. ws ! i * xs ! i) / (\<Sum>i<length xs. ws ! i))))"
proof (intro conjI impI)
  show "fst (transform_partial base_meta (pyod_spec rb) (AverageScoreEnsembler None) g xs) =
          in_module base_meta (Inr (sum_list xs / real (length xs)))"
    using assms
    by (simp add: transform_partial_in_module pyod_spec_def spec_average_def
        weighted_mean_uniform) (simp add: arith_mean_def)
next
  assume len: "length ws = length xs"
  have "weighted_mean xs ws = (\<Sum>i<length xs. ws ! i * xs ! i) / (\<Sum>i<length xs. ws ! i)"
    unfolding weighted_mean_def
    using sum_list_map2_nth [OF len] sum_list_nth_lessThan [of ws] len by simp
  then show "fst (transform_partial base_meta (pyod_spec rb)
          (AverageScoreEnsembler (Some ws)) g xs) =
        in_module base_meta
          (Inr ((\<Sum>i<length xs. ws ! i * xs ! i) / (\<Sum>i<length xs. ws ! i)))"
    using assms len
    by (simp add: transform_partial_in_module pyod_spec_def spec_average_def)
qed

lemma one_bucket_in_module:
  assumes "xs \<noteq> []"
  shows "fst (transform_partial base_meta (pyod_spec rb)
            (AverageOfMaximumEnsembler
              \<lparr>method_name = ''static'', n_buckets = 1, bootstrap_estimators = False\<rparr>) g xs) =
          in_module base_meta (Inr (Max (set xs)))
       \<and> fst (transform_partial base_meta (pyod_spec rb)
            (MaximumOfAverageEnsembler
              \<lparr>method_name = ''static'', n_buckets = 1, bootstrap_estimators = False\<rparr>) g xs) =
          in_module base_meta (Inr (sum_list xs / real (length xs)))"
proof -
  from assms have len: "1 \<le> int (length xs)"
    by (cases xs) simp_all
  have b: "spec_buckets rb g (RowMatrix xs) 1 ''static'' False = (Inr [xs], g)"
    using spec_buckets_static [OF assms, of 1 rb g] len by simp
  show ?thesis
    using assms
    by (simp add: transform_partial_in_module pyod_spec_def spec_aom_def spec_moa_def b
        arith_mean_single maximum_Max) (simp add: arith_mean_def)
qed

lemma combine_reproducible:
  "reproducible e \<Longrightarrow>
   combine (pyod_spec rb) e g m = (fst (combine (pyod_spec rb') e g' m), g)"
proof (cases e)
  case (AverageOfMaximumEnsembler p)
  assume "reproducible e"
  with AverageOfMaximumEnsembler
  have p: "method_name p = ''static''" "\<not> bootstrap_estimators p"
    by simp_all
  show ?thesis
    unfolding AverageOfMaximumEnsembler
    using spec_buckets_reproducible [of rb g m "n_buckets p" rb' g']
    by (simp add: pyod_spec_def spec_aom_def p split: prod.splits sum.splits)
next
  case (MaximumOfAverageEnsembler p)
  assume "reproducible e"
  with MaximumOfAverageEnsembler
  have p: "method_name p = ''static''" "\<not> bootstrap_estimators p"
    by simp_all
  show ?thesis
    unfolding MaximumOfAverageEnsembler
    using spec_buckets_reproducible [of rb g m "n_buckets p" rb' g']
    by (simp add: pyod_spec_def spec_moa_def p split: prod.splits sum.splits)
qed (simp_all add: pyod_spec_def)

lemma deterministic_in_module:
  assumes "reproducible e"
  shows "fst (transform_partial base_meta (pyod_spec rb) e g xs) =
           fst (transform_partial base_meta (pyod_spec rb') e g' xs)
       \<and> snd (transform_partial base_meta (pyod_spec rb) e g xs) = (e, g)"
  using combine_reproducible [OF assms, of rb g "RowMatrix xs" rb' g']
  by (simp add: transform_partial_def reshape_def split: sum.splits prod.splits)

lemma bucket_defaults_in_module:
  "new_AverageOfMaximumEnsembler base_meta None None None =
     in_module base_meta (Inr (AverageOfMaximumEnsembler
       \<lparr>method_name = ''static'', n_buckets = 5, bootstrap_estimators = False\<rparr>))
   \<and> new_MaximumOfAverageEnsembler base_meta None None None =
     in_module base_meta (Inr (MaximumOfAverageEnsembler
       \<lparr>method_name = ''static'', n_buckets = 5, bootstrap_estimators = False\<rparr>))
   \<and> fst (transform_partial base_meta lib
        (AverageOfMaximumEnsembler
          \<lparr>method_name = ''static'', n_buckets = 5, bootstrap_estimators = False\<rparr>) g scores) =
      in_module base_meta (fst (aom lib g (RowMatrix scores) 5 ''static'' False))
   \<and> fst (transform_partial base_meta lib
        (MaximumOfAverageEnsembler
          \<lparr>method_name = ''static'', n_buckets = 5, bootstrap_estimators = False\<rparr>) g scores) =
      in_module base_meta (fst (moa lib g (RowMatrix scores) 5 ''static'' False))"
  by (simp add: new_AverageOfMaximumEnsembler_def new_MaximumOfAverageEnsembler_def
      AverageOfMaximumEnsembler_init_def MaximumOfAverageEnsembler_init_def default_arg_def
      transform_partial_in_module)

text \<open>
  In the dynamic mode the result does depend on the random bucket builder: the two
  builders above give different scores on the same input.
\<close>

lemma dynamic_depends_on_random_source:
  "fst (transform_partial py_ABCDerivedMeta (pyod_spec whole_buckets)
         (AverageOfMaximumEnsembler
           \<lparr>method_name = ''dynamic'', n_buckets = 2, bootstrap_estimators = False\<rparr>) 0 [1, 2])
   \<noteq> fst (transform_partial py_ABCDerivedMeta (pyod_spec single_buckets)
         (AverageOfMaximumEnsembler
           \<lparr>method_name = ''dynamic'', n_buckets = 2, bootstrap_estimators = False\<rparr>) 0 [1, 2])"
  by (simp add: transform_partial_in_module in_module_ABCDerivedMeta pyod_spec_def spec_aom_def
      spec_buckets_def arith_mean_def whole_buckets_def single_buckets_def numeral_2_eq_2
      Let_def)

section \<open>The claims about the constructors\<close>

text \<open>
  C1 (as amended): the constructors of AverageOfMaximumEnsembler and
  MaximumOfAverageEnsembler do not validate \<open>method\<close>. \<^verbatim>\<open>__init__\<close> stores the given
  method unchanged, with the given or default \<open>n_buckets\<close> and \<open>bootstrap_estimators\<close>,
  and construction never fails with ConfigurationError, so a method that is neither
  "static" nor "dynamic" is treated exactly as a valid one.
\<close>

theorem bucket_init_never_checks_method:
  "AverageOfMaximumEnsembler_init nb (Some m) b =
     \<lparr>method_name = m, n_buckets = default_arg 5 nb, bootstrap_estimators = default_arg False b\<rparr>
   \<and> new_AverageOfMaximumEnsembler base_meta nb (Some m) b =
     in_module base_meta (Inr (AverageOfMaximumEnsembler
       \<lparr>method_name = m, n_buckets = default_arg 5 nb,
        bootstrap_estimators = default_arg False b\<rparr>))
   \<and> new_AverageOfMaximumEnsembler base_meta nb (Some m) b \<noteq> Inl ConfigurationError
   \<and> MaximumOfAverageEnsembler_init nb (Some m) b =
     \<lparr>method_name = m, n_buckets = default_arg 5 nb, bootstrap_estimators = default_arg False b\<rparr>
   \<and> new_MaximumOfAverageEnsembler base_meta nb (Some m) b =
     in_module base_meta (Inr (MaximumOfAverageEnsembler
       \<lparr>method_name = m, n_buckets = default_arg 5 nb,
        bootstrap_estimators = default_arg False b\<rparr>))
   \<and> new_MaximumOfAverageEnsembler base_meta nb (Some m) b \<noteq> Inl ConfigurationError"
proof -
  have "in_module base_meta (Inr v) \<noteq> Inl ConfigurationError" for v :: ensembler
    using in_module_Inr_cases [of base_meta v] by auto
  then show ?thesis
    by (simp add: new_AverageOfMaximumEnsembler_def new_MaximumOfAverageEnsembler_def
        AverageOfMaximumEnsembler_init_def MaximumOfAverageEnsembler_init_def default_arg_def)
qed

text \<open>
  C1 (as stated) fails at \<open>method = "bogus"\<close>, which is neither "static" nor
  "dynamic". With \<^verbatim>\<open>BaseScoreEnsembler\<close> an ordinary abstract class (its type is
  \<^verbatim>\<open>ABCMeta\<close>), the attempt ends in the TypeError of line 7, not in
  ConfigurationError. Where line 7 runs through, both constructors return an instance
  that holds "bogus".
\<close>

theorem bucket_init_invalid_method_counterexample:
  "new_AverageOfMaximumEnsembler py_ABCMeta (Some 5) (Some ''bogus'') (Some False)
     = Inl TypeError
   \<and> new_AverageOfMaximumEnsembler py_ABCMeta (Some 5) (Some ''bogus'') (Some False)
     \<noteq> Inl ConfigurationError
   \<and> new_MaximumOfAverageEnsembler py_ABCMeta (Some 5) (Some ''bogus'') (Some False)
     = Inl TypeError
   \<and> new_MaximumOfAverageEnsembler py_ABCMeta (Some 5) (Some ''bogus'') (Some False)
     \<noteq> Inl ConfigurationError
   \<and> new_AverageOfMaximumEnsembler py_ABCDerivedMeta (Some 5) (Some ''bogus'') (Some False) =
       Inr (AverageOfMaximumEnsembler
         \<lparr>method_name = ''bogus'', n_buckets = 5, bootstrap_estimators = False\<rparr>)
   \<and> new_MaximumOfAverageEnsembler py_ABCDerivedMeta (Some 5) (Some ''bogus'') (Some False) =
       Inr (MaximumOfAverageEnsembler
         \<lparr>method_name = ''bogus'', n_buckets = 5, bootstrap_estimators = False\<rparr>)"
  by (simp add: new_AverageOfMaximumEnsembler_def new_MaximumOfAverageEnsembler_def
      AverageOfMaximumEnsembler_init_def MaximumOfAverageEnsembler_init_def default_arg_def
      in_module_ABCMeta in_module_ABCDerivedMeta)


section \<open>The claims about \<^verbatim>\<open>transform_partial\<close>\<close>

text \<open>
  C2: the claim is that \<^verbatim>\<open>MaxScoreEnsembler.transform_partial\<close> returns the maximum of
  every non-empty score vector. In the source, with \<^verbatim>\<open>BaseScoreEnsembler\<close> an ordinary
  class, no MaxScoreEnsembler can be created, and on \<open>[0.1, 0.9, 0.5, 0.3]\<close> the attempt
  ends in the TypeError of line 7 and not in the maximum 0.9, whatever the imported
  functions do.
\<close>

theorem max_transform_partial_raises_type_error:
  "new_MaxScoreEnsembler py_ABCMeta = Inl TypeError
   \<and> new_MaxScoreEnsembler py_type = Inl TypeError
   \<and> fst (transform_partial py_ABCMeta lib MaxScoreEnsembler g [1/10, 9/10, 5/10, 3/10])
       = Inl TypeError
   \<and> fst (transform_partial py_type lib MaxScoreEnsembler g [1/10, 9/10, 5/10, 3/10])
       = Inl TypeError
   \<and> fst (transform_partial py_ABCMeta lib MaxScoreEnsembler g [1/10, 9/10, 5/10, 3/10])
       \<noteq> Inr (9/10)"
  by (simp add: new_MaxScoreEnsembler_def in_module_ABCMeta in_module_type
      transform_partial_in_module)

text \<open>
  C3: the claim is that \<^verbatim>\<open>MedianScoreEnsembler.transform_partial\<close> returns the
  standard median of every non-empty score vector, 0.4 for \<open>[0.1, 0.9, 0.5, 0.3]\<close>. In
  the source, with \<^verbatim>\<open>BaseScoreEnsembler\<close> an ordinary class, no MedianScoreEnsembler
  can be created, and on that vector the attempt ends in the TypeError of line 7 and
  not in 0.4.
\<close>

theorem median_transform_partial_raises_type_error:
  "new_MedianScoreEnsembler py_ABCMeta = Inl TypeError
   \<and> new_MedianScoreEnsembler py_type = Inl TypeError
   \<and> fst (transform_partial py_ABCMeta lib MedianScoreEnsembler g [1/10, 9/10, 5/10, 3/10])
       = Inl TypeError
   \<and> fst (transform_partial py_type lib MedianScoreEnsembler g [1/10, 9/10, 5/10, 3/10])
       = Inl TypeError
   \<and> fst (transform_partial py_ABCMeta lib MedianScoreEnsembler g [1/10, 9/10, 5/10, 3/10])
       \<noteq> Inr (4/10)"
  by (simp add: new_MedianScoreEnsembler_def in_module_ABCMeta in_module_type
      transform_partial_in_module)

text \<open>
  C4: the claim is that \<^verbatim>\<open>AverageScoreEnsembler.transform_partial\<close> returns the
  arithmetic mean without weights and the weighted mean with weights of matching
  length. In the source, with \<^verbatim>\<open>BaseScoreEnsembler\<close> an ordinary class, no
  AverageScoreEnsembler can be created, with or without weights, and on
  \<open>[0.1, 0.9, 0.5, 0.3]\<close> the attempt ends in the TypeError of line 7 and not in the
  mean 0.45 or the weighted mean 0.46 (weights 1, 2, 3, 4).
\<close>

theorem average_transform_partial_raises_type_error:
  "new_AverageScoreEnsembler py_ABCMeta None = Inl TypeError
   \<and> new_AverageScoreEnsembler py_ABCMeta (Some (Some [1, 2, 3, 4])) = Inl TypeError
   \<and> new_AverageScoreEnsembler py_type None = Inl TypeError
   \<and> fst (transform_partial py_ABCMeta lib (AverageScoreEnsembler None) g
           [1/10, 9/10, 5/10, 3/10]) = Inl TypeError
   \<and> fst (transform_partial py_ABCMeta lib (AverageScoreEnsembler None) g
           [1/10, 9/10, 5/10, 3/10]) \<noteq> Inr (45/100)
   \<and> fst (transform_partial py_ABCMeta lib (AverageScoreEnsembler (Some [1, 2, 3, 4])) g
           [1/10, 9/10, 5/10, 3/10]) = Inl TypeError
   \<and> fst (transform_partial py_ABCMeta lib (AverageScoreEnsembler (Some [1, 2, 3, 4])) g
           [1/10, 9/10, 5/10, 3/10]) \<noteq> Inr (46/100)"
  by (simp add: new_AverageScoreEnsembler_def in_module_ABCMeta in_module_type
      transform_partial_in_module)

text \<open>
  C5: the claim is that with \<open>n_buckets = 1\<close>, \<open>method = "static"\<close> and bootstrap
  disabled AverageOfMaximumEnsembler returns the maximum and MaximumOfAverageEnsembler
  the arithmetic mean of the scores. In the source, with \<^verbatim>\<open>BaseScoreEnsembler\<close> an
  ordinary class, neither ensembler can be created, and on \<open>[0.1, 0.9, 0.5, 0.3]\<close> the
  attempt ends in the TypeError of line 7 and not in 0.9 or 0.45.
\<close>

theorem one_bucket_transform_partial_raises_type_error:
  "new_AverageOfMaximumEnsembler py_ABCMeta (Some 1) (Some ''static'') (Some False)
     = Inl TypeError
   \<and> new_MaximumOfAverageEnsembler py_ABCMeta (Some 1) (Some ''static'') (Some False)
     = Inl TypeError
   \<and> fst (transform_partial py_ABCMeta lib
        (AverageOfMaximumEnsembler
          \<lparr>method_name = ''static'', n_buckets = 1, bootstrap_estimators = False\<rparr>) g
        [1/10, 9/10, 5/10, 3/10]) = Inl TypeError
   \<and> fst (transform_partial py_ABCMeta lib
        (AverageOfMaximumEnsembler
          \<lparr>method_name = ''static'', n_buckets = 1, bootstrap_estimators = False\<rparr>) g
        [1/10, 9/10, 5/10, 3/10]) \<noteq> Inr (9/10)
   \<and> fst (transform_partial py_ABCMeta lib
        (MaximumOfAverageEnsembler
          \<lparr>method_name = ''static'', n_buckets = 1, bootstrap_estimators = False\<rparr>) g
        [1/10, 9/10, 5/10, 3/10]) = Inl TypeError
   \<and> fst (transform_partial py_ABCMeta lib
        (MaximumOfAverageEnsembler
          \<lparr>method_name = ''static'', n_buckets = 1, bootstrap_estimators = False\<rparr>) g
        [1/10, 9/10, 5/10, 3/10]) \<noteq> Inr (45/100)"
  by (simp add: new_AverageOfMaximumEnsembler_def new_MaximumOfAverageEnsembler_def
      in_module_ABCMeta transform_partial_in_module)





end
